theory Spec2Isabelle
  imports Complex_Main
begin

section \<open>Auth stores (src/lib/stores/index.ts)\<close>

text \<open>
  The module holds four writable stores. They are modelled as one record that every
  helper takes and returns. \<open>localStorage\<close> holds at most one item that the program
  reads, the one under the key \<open>token\<close>; it is the field \<open>ls_token\<close>.
\<close>

record user_rec =
  user_id :: "string option"
  user_name :: "string option"
  user_email :: "string option"
  user_role :: "string option"

record stores =
  isAuthenticated :: bool
  user :: "user_rec option"
  isGuest :: bool
  token :: "string option"
  ls_token :: "string option"

definition initial_stores :: stores where
  "initial_stores =
     \<lparr>isAuthenticated = False, user = None, isGuest = False, token = None, ls_token = None\<rparr>"

definition guestUser :: user_rec where
  "guestUser =
     \<lparr>user_id = Some ''guest'', user_name = Some ''Guest'',
      user_email = Some ''guest@example.com'', user_role = Some ''guest''\<rparr>"

definition setGuestMode :: "stores \<Rightarrow> stores" where
  "setGuestMode s = s\<lparr>isAuthenticated := True, isGuest := True, user := Some guestUser, token := None\<rparr>"

definition clearAuth :: "stores \<Rightarrow> stores" where
  "clearAuth s =
     s\<lparr>isAuthenticated := False, isGuest := False, user := None, token := None, ls_token := None\<rparr>"

text \<open>
  The success path of \<open>handleSubmit\<close> on the auth page: \<open>login\<close> returned the access
  token \<open>tok\<close> and \<open>me\<close> returned the user \<open>u\<close>.
\<close>

definition loginSucceeded :: "string \<Rightarrow> user_rec \<Rightarrow> stores \<Rightarrow> stores" where
  "loginSucceeded tok u s =
     s\<lparr>ls_token := Some tok, token := Some tok, user := Some u,
       isAuthenticated := True, isGuest := False\<rparr>"

section \<open>Messages\<close>

text \<open>
  The type of a transcript entry as the API declares it (\<open>role\<close>, \<open>content\<close>, optional
  \<open>timestamp\<close> and \<open>data\<close>), and the page's entries, which carry two more optional
  properties: the \<open>__placeholder\<close> marker (absent is falsy, so a \<open>bool\<close>) and \<open>cid\<close>.
  The \<open>data\<close> payload is opaque to the page; it is kept as text.
\<close>

record wire_message =
  role :: string
  content :: string
  timestamp :: "nat option"
  data :: "string option"

record chat_message = wire_message +
  placeholder :: bool
  cid :: "string option"

definition fromWire :: "wire_message \<Rightarrow> chat_message" where
  "fromWire w =
     \<lparr>role = role w, content = content w, timestamp = timestamp w, data = data w,
      placeholder = False, cid = None\<rparr>"

definition toWire :: "chat_message \<Rightarrow> wire_message" where
  "toWire m = \<lparr>role = role m, content = content m, timestamp = timestamp m, data = data m\<rparr>"

section \<open>Streaming requests (src/lib/apis/chats: streamMessage, guestChatStream)\<close>

text \<open>
  JavaScript truthiness of a \<open>string | null\<close> value and of an optional string property:
  \<open>null\<close>, \<open>undefined\<close> and the empty string are falsy.
\<close>

fun truthy :: "string option \<Rightarrow> bool" where
  "truthy None = False"
| "truthy (Some t) = (t \<noteq> [])"

definition getToken :: "stores \<Rightarrow> string option" where
  "getToken s = ls_token s"

text \<open>
  A query value is kept as the value handed to \<open>String(...)\<close> or \<open>JSON.stringify(...)\<close>;
  the rendering of numbers and of the message list is the platform's. The message list is
  the page's own objects, so \<open>JSON.stringify\<close> sees their \<open>cid\<close> and \<open>__placeholder\<close> too.
\<close>

datatype qvalue = QText string | QNum rat | QMessages "chat_message list"

record stream_opts =
  opt_model :: "string option"
  opt_temperature :: "rat option"
  opt_api_base :: "string option"
  opt_use_rag :: bool
  opt_rag_top_k :: "rat option"
  opt_rag_temperature :: "rat option"

record fetch_request =
  req_path :: string
  req_query :: "(string \<times> qvalue) list"
  req_method :: string
  req_headers :: "(string \<times> string) list"
  req_cache :: string
  req_mode :: string

text \<open>The option parameters both stream functions append to the URL, in source order.\<close>

definition opt_params :: "stream_opts \<Rightarrow> (string \<times> qvalue) list" where
  "opt_params opts =
     (if truthy (opt_model opts) then [(''model'', QText (the (opt_model opts)))] else [])
     @ (case opt_temperature opts of None \<Rightarrow> [] | Some t \<Rightarrow> [(''temperature'', QNum t)])
     @ (if opt_use_rag opts then [(''use_rag'', QText ''true'')] else [])
     @ (case opt_rag_top_k opts of None \<Rightarrow> [] | Some k \<Rightarrow> [(''rag_top_k'', QNum k)])
     @ (case opt_rag_temperature opts of None \<Rightarrow> [] | Some t \<Rightarrow> [(''rag_temperature'', QNum t)])
     @ (if truthy (opt_api_base opts) then [(''api_base'', QText (the (opt_api_base opts)))] else [])"

definition streamMessage_request :: "stores \<Rightarrow> string \<Rightarrow> string \<Rightarrow> stream_opts \<Rightarrow> fetch_request" where
  "streamMessage_request s chat_id text opts =
     (let tok = getToken s;
          headers = [(''Accept'', ''text/event-stream'')]
                    @ (if truthy tok then [(''Authorization'', ''Bearer '' @ the tok)] else [])
      in \<lparr>req_path = ''/api/chats/'' @ chat_id @ ''/stream'',
          req_query = [(''content'', QText text)] @ opt_params opts,
          req_method = ''GET'',
          req_headers = headers,
          req_cache = ''no-store'',
          req_mode = ''cors''\<rparr>)"

definition guestChatStream_request :: "string \<Rightarrow> chat_message list \<Rightarrow> stream_opts \<Rightarrow> fetch_request" where
  "guestChatStream_request text history opts =
     \<lparr>req_path = ''/api/chats/guest/stream'',
      req_query = [(''content'', QText text), (''messages'', QMessages history)] @ opt_params opts,
      req_method = ''GET'',
      req_headers = [(''Accept'', ''text/event-stream'')],
      req_cache = ''no-store'',
      req_mode = ''cors''\<rparr>"

section \<open>The line decoder (streamMessage and guestChatStream read loops)\<close>

text \<open>
  \<open>buf.split(/\r?\n/)\<close>: the separator is a line feed with one carriage return before
  it, when there is one. The result always has a last element, the text after the last
  separator, which the loop pops back into \<open>buf\<close>. The first argument of \<open>split_go\<close>
  is the current piece, reversed.
\<close>

definition LF :: char where "LF = CHR 0x0A"
definition CR :: char where "CR = CHR 0x0D"

fun strip_cr :: "string \<Rightarrow> string" where
  "strip_cr [] = []"
| "strip_cr (c # cs) = (if c = CR then cs else c # cs)"

fun split_go :: "string \<Rightarrow> string \<Rightarrow> string list" where
  "split_go cur [] = [rev cur]"
| "split_go cur (c # cs) =
     (if c = LF then rev (strip_cr cur) # split_go [] cs else split_go (c # cur) cs)"

definition split_lines :: "string \<Rightarrow> string list" where
  "split_lines s = split_go [] s"

definition startsWith :: "string \<Rightarrow> string \<Rightarrow> bool" where
  "startsWith p s = (take (length p) s = p)"

text \<open>
  The values \<open>JSON.parse\<close> returns. \<open>JSON.parse\<close> itself is the platform's: the decoder
  takes it as the parameter \<open>parse\<close>, \<open>None\<close> standing for the \<open>SyntaxError\<close> it
  throws. An object is its property list.
\<close>

datatype json =
  JNull | JBool bool | JNumber rat | JString string | JArray "json list"
  | JObject "(string \<times> json) list"

text \<open>
  Reading a property of a parsed value: on \<open>null\<close> it throws a \<open>TypeError\<close> (the outer
  \<open>None\<close>); on a boolean, a number, a string or an array the properties \<open>type\<close> and
  \<open>data\<close> are \<open>undefined\<close> (the inner \<open>None\<close>).
\<close>

fun get_prop :: "json \<Rightarrow> string \<Rightarrow> json option option" where
  "get_prop JNull k = None"
| "get_prop (JObject kvs) k = Some (map_of kvs k)"
| "get_prop v k = Some None"

text \<open>
  A callback runs on the caller's state and either returns or throws; in both cases the
  state is the one it left behind.
\<close>

datatype 's outcome = Returned 's | Threw 's

datatype 's line_result = Continue 's | Return 's | Throw 's

text \<open>\<open>onChunk?.(data)\<close> outside any \<open>try\<close>: an exception of the callback leaves the loop.\<close>

definition call_chunk :: "(string \<Rightarrow> 's \<Rightarrow> 's outcome) option \<Rightarrow> string \<Rightarrow> 's \<Rightarrow> 's line_result" where
  "call_chunk onChunk d s =
     (case onChunk of
        None \<Rightarrow> Continue s
      | Some f \<Rightarrow> (case f d s of Returned s' \<Rightarrow> Continue s' | Threw s' \<Rightarrow> Throw s'))"

text \<open>One line of \<open>streamMessage\<close>.\<close>

definition stream_line :: "(string \<Rightarrow> 's \<Rightarrow> 's outcome) option \<Rightarrow> string \<Rightarrow> 's \<Rightarrow> 's line_result" where
  "stream_line onChunk line s =
     (if startsWith ''data: '' line then
        (let d = drop 6 line in
         if d = ''[DONE]'' then Return s else call_chunk onChunk d s)
      else Continue s)"

text \<open>
  One line of \<open>guestChatStream\<close>. The \<open>try\<close> block holds \<open>JSON.parse\<close>, the test of
  \<open>parsed.type\<close> and the call of \<open>onMessages\<close>; whatever throws there lands in the
  \<open>catch\<close>, which calls \<open>onChunk\<close>.
\<close>

definition guest_line ::
  "(string \<Rightarrow> json option) \<Rightarrow> (string \<Rightarrow> 's \<Rightarrow> 's outcome) option
   \<Rightarrow> (json option \<Rightarrow> 's \<Rightarrow> 's outcome) option \<Rightarrow> string \<Rightarrow> 's \<Rightarrow> 's line_result" where
  "guest_line parse onChunk onMessages line s =
     (if startsWith ''data: '' line then
        (let d = drop 6 line in
         if d = ''[DONE]'' then Return s
         else
           (case parse d of
              None \<Rightarrow> call_chunk onChunk d s
            | Some parsed \<Rightarrow>
                (case get_prop parsed ''type'' of
                   None \<Rightarrow> call_chunk onChunk d s
                 | Some ty \<Rightarrow>
                     (if ty = Some (JString ''messages'') \<and> onMessages \<noteq> None then
                        (case the onMessages (the (get_prop parsed ''data'')) s of
                           Returned s' \<Rightarrow> Continue s'
                         | Threw s' \<Rightarrow> call_chunk onChunk d s')
                      else Continue s))))
      else Continue s)"

text \<open>The \<open>for\<close> loop over the complete lines of one read.\<close>

fun run_lines :: "(string \<Rightarrow> 's \<Rightarrow> 's line_result) \<Rightarrow> string list \<Rightarrow> 's \<Rightarrow> 's line_result" where
  "run_lines step [] s = Continue s"
| "run_lines step (l # ls) s =
     (case step l s of
        Continue s' \<Rightarrow> run_lines step ls s'
      | Return s' \<Rightarrow> Return s'
      | Throw s' \<Rightarrow> Throw s')"

text \<open>
  The \<open>while\<close> loop over the reads of the body. The body is the list of decoded pieces
  the reader yields and the way it ends: \<open>done\<close>, or a read that rejects.
\<close>

datatype body_end = EndOfBody | ReadFails

fun run_reads ::
  "(string \<Rightarrow> 's \<Rightarrow> 's line_result) \<Rightarrow> string \<Rightarrow> string list \<Rightarrow> body_end \<Rightarrow> 's \<Rightarrow> 's outcome" where
  "run_reads step buf [] e s = (case e of EndOfBody \<Rightarrow> Returned s | ReadFails \<Rightarrow> Threw s)"
| "run_reads step buf (r # rs) e s =
     (let lines = split_lines (buf @ r) in
      case run_lines step (butlast lines) s of
        Continue s' \<Rightarrow> run_reads step (last lines) rs e s'
      | Return s' \<Rightarrow> Returned s'
      | Throw s' \<Rightarrow> Threw s')"

text \<open>
  The response of \<open>fetch\<close>: the call rejects, or the response is not usable
  (\<open>!res.ok || !res.body\<close>), or it has a body.
\<close>

datatype response = FetchRejects | NotOk | Body "string list" body_end

definition streamMessage ::
  "(string \<Rightarrow> 's \<Rightarrow> 's outcome) option \<Rightarrow> response \<Rightarrow> 's \<Rightarrow> 's outcome" where
  "streamMessage onChunk res s =
     (case res of
        FetchRejects \<Rightarrow> Threw s
      | NotOk \<Rightarrow> Threw s
      | Body reads e \<Rightarrow> run_reads (stream_line onChunk) [] reads e s)"

definition guestChatStream ::
  "(string \<Rightarrow> json option) \<Rightarrow> (string \<Rightarrow> 's \<Rightarrow> 's outcome) option
   \<Rightarrow> (json option \<Rightarrow> 's \<Rightarrow> 's outcome) option \<Rightarrow> response \<Rightarrow> 's \<Rightarrow> 's outcome" where
  "guestChatStream parse onChunk onMessages res s =
     (case res of
        FetchRejects \<Rightarrow> Threw s
      | NotOk \<Rightarrow> Threw s
      | Body reads e \<Rightarrow> run_reads (guest_line parse onChunk onMessages) [] reads e s)"

text \<open>
  The events a consumer sees: callbacks that only record their call, in order.
\<close>

datatype event = TextChunk string | Control "json option"

definition record_chunk :: "string \<Rightarrow> event list \<Rightarrow> event list outcome" where
  "record_chunk d tr = Returned (tr @ [TextChunk d])"

definition record_messages :: "json option \<Rightarrow> event list \<Rightarrow> event list outcome" where
  "record_messages j tr = Returned (tr @ [Control j])"

section \<open>The chat page (routes/(app)/+page.svelte)\<close>

text \<open>
  \<open>ragTopK\<close> and \<open>ragTemperature\<close> are bound to number inputs: a number, or \<open>null\<close>
  while the input is empty.
\<close>

record page =
  messages :: "chat_message list"
  streaming :: bool
  useRag :: bool
  ragTopK :: "rat option"
  ragTemperature :: "rat option"
  pendingAssistantIndex :: "nat option"
  ignoreFinalGuestSse :: bool
  cidCounter :: nat
  selectedChatId :: "string option"

text \<open>The reactive statement \<open>$: if (useRag) { streaming = false; }\<close>.\<close>

definition react_useRag :: "page \<Rightarrow> page" where
  "react_useRag p = (if useRag p then p\<lparr>streaming := False\<rparr> else p)"

text \<open>
  The two checkboxes. The statement above runs after a change of \<open>useRag\<close>; the
  streaming checkbox is disabled while \<open>useRag\<close> is set.
\<close>

definition set_useRag :: "bool \<Rightarrow> page \<Rightarrow> page" where
  "set_useRag b p = react_useRag (p\<lparr>useRag := b\<rparr>)"

definition set_streaming :: "bool \<Rightarrow> page \<Rightarrow> page" where
  "set_streaming b p = (if useRag p then p else p\<lparr>streaming := b\<rparr>)"

text \<open>\<open>Number.prototype.toString\<close> on a natural number: its decimal digits.\<close>

definition digit_char :: "nat \<Rightarrow> char" where
  "digit_char d = ''0123456789'' ! d"

function show_nat :: "nat \<Rightarrow> string" where
  "show_nat n = (if n < 10 then [digit_char n] else show_nat (n div 10) @ [digit_char (n mod 10)])"
  by pat_completeness auto
termination
  by (relation "measure id") auto

declare show_nat.simps [simp del]

text \<open>\<open>nextCid = () => (++cidCounter).toString()\<close>.\<close>

definition nextCid :: "page \<Rightarrow> string \<times> page" where
  "nextCid p = (show_nat (Suc (cidCounter p)), p\<lparr>cidCounter := Suc (cidCounter p)\<rparr>)"

definition user_message :: "string \<Rightarrow> nat \<Rightarrow> string \<Rightarrow> chat_message" where
  "user_message text nowSec c =
     \<lparr>role = ''user'', content = text, timestamp = Some nowSec, data = None,
      placeholder = False, cid = Some c\<rparr>"

definition placeholder_message :: "string \<Rightarrow> chat_message" where
  "placeholder_message c =
     \<lparr>role = ''assistant'', content = [], timestamp = None, data = None,
      placeholder = True, cid = Some c\<rparr>"

record guest_chat_request =
  gc_content :: string
  gc_messages :: "chat_message list"
  gc_use_rag :: bool
  gc_rag_top_k :: "rat option"
  gc_rag_temperature :: "rat option"

record guest_chat_response =
  resp_response :: string
  resp_messages :: "wire_message list"
  resp_data :: "string option"

definition guest_opts :: "page \<Rightarrow> stream_opts" where
  "guest_opts p =
     \<lparr>opt_model = None, opt_temperature = None, opt_api_base = None,
      opt_use_rag = useRag p, opt_rag_top_k = ragTopK p,
      opt_rag_temperature = ragTemperature p\<rparr>"

definition guest_request :: "string \<Rightarrow> chat_message list \<Rightarrow> page \<Rightarrow> guest_chat_request" where
  "guest_request text history p =
     \<lparr>gc_content = text, gc_messages = history, gc_use_rag = useRag p,
      gc_rag_top_k = ragTopK p, gc_rag_temperature = ragTemperature p\<rparr>"

text \<open>
  What \<open>handleGuestSent\<close> has done when it reaches its first \<open>await\<close>: nothing (empty
  content), the stream request, or the plain request. \<open>currentMessages\<close> is used again
  in the \<open>catch\<close>, so the streaming case keeps it.
\<close>

datatype started =
  NotStarted
  | StreamStarted "chat_message list" fetch_request
  | PlainStarted guest_chat_request

text \<open>
  In the streaming branch \<open>messages = currentMessages\<close> makes both names denote one
  array, and \<open>messages.push(placeholder)\<close> appends to that array; only
  \<open>messages = [...messages]\<close> afterwards gives \<open>messages\<close> an array of its own. So
  \<open>currentMessages\<close> ends with the placeholder when \<open>currentMessages.slice(0, -1)\<close> is
  taken. \<open>pushed\<close> is that array.
\<close>

definition handleGuestSent_begin :: "nat \<Rightarrow> string \<Rightarrow> page \<Rightarrow> page \<times> started" where
  "handleGuestSent_begin nowSec text p =
     (if text = [] then (p, NotStarted)
      else if streaming p \<and> \<not> useRag p then
        (let (c1, p1) = nextCid p;
             currentMessages = messages p1 @ [user_message text nowSec c1];
             p2 = p1\<lparr>messages := currentMessages\<rparr>;
             (c2, p3) = nextCid p2;
             pushed = messages p3 @ [placeholder_message c2];
             p4 = p3\<lparr>messages := pushed,
                     pendingAssistantIndex := Some (length pushed - 1),
                     ignoreFinalGuestSse := False\<rparr>
         in (p4, StreamStarted pushed
                   (guestChatStream_request text (butlast pushed) (guest_opts p4))))
      else
        (let (c1, p1) = nextCid p;
             currentMessages = messages p1 @ [user_message text nowSec c1];
             p2 = p1\<lparr>messages := currentMessages\<rparr>
         in (p2, PlainStarted (guest_request text (butlast currentMessages) p2))))"

text \<open>
  The chunk callback. \<open>acc\<close> is a local of the handler, so the callbacks run on the
  page together with it. Writing \<open>content\<close> of an entry that is not there throws a
  \<open>TypeError\<close>.
\<close>

definition guest_onChunk :: "string \<Rightarrow> page \<times> string \<Rightarrow> (page \<times> string) outcome" where
  "guest_onChunk chunk s =
     (let p = fst s; acc = snd s @ chunk in
      case pendingAssistantIndex p of
        None \<Rightarrow> Returned (p, acc)
      | Some i \<Rightarrow>
          (if i < length (messages p)
           then Returned (p\<lparr>messages := (messages p)[i := (messages p ! i)\<lparr>content := acc\<rparr>]\<rparr>, acc)
           else Threw (p, acc)))"

text \<open>\<open>xs.slice(-2)\<close>, \<open>xs.slice(0, -2)\<close> and \<open>xs.slice(0, -1)\<close>.\<close>

definition slice_last2 :: "'a list \<Rightarrow> 'a list" where
  "slice_last2 xs = drop (length xs - 2) xs"

definition slice_drop2 :: "'a list \<Rightarrow> 'a list" where
  "slice_drop2 xs = take (length xs - 2) xs"

definition slice_drop1 :: "'a list \<Rightarrow> 'a list" where
  "slice_drop1 xs = take (length xs - 1) xs"

text \<open>\<open>pendingAssistantIndex != null && messages[pendingAssistantIndex]?.__placeholder\<close>.\<close>

definition placeholder_present :: "page \<Rightarrow> bool" where
  "placeholder_present p =
     (case pendingAssistantIndex p of
        None \<Rightarrow> False
      | Some i \<Rightarrow> i < length (messages p) \<and> placeholder (messages p ! i))"

text \<open>The three steps of the \<open>onMessages\<close> callback after its early return.\<close>

definition replace_tail :: "wire_message list \<Rightarrow> page \<Rightarrow> page" where
  "replace_tail updatedMessages p =
     (if placeholder_present p
      then p\<lparr>messages := slice_drop2 (messages p) @ map fromWire (slice_last2 updatedMessages)\<rparr>
      else p\<lparr>messages := map fromWire updatedMessages\<rparr>)"

definition dedup_tail :: "page \<Rightarrow> page" where
  "dedup_tail p =
     (if 2 \<le> length (messages p) then
        (let a = messages p ! (length (messages p) - 1);
             b = messages p ! (length (messages p) - 2)
         in if role a = role b \<and> content a = content b
            then p\<lparr>messages := slice_drop1 (messages p)\<rparr>
            else p)
      else p)"

definition guest_onMessages :: "wire_message list \<Rightarrow> page \<Rightarrow> page" where
  "guest_onMessages updatedMessages p =
     (if ignoreFinalGuestSse p
      then p\<lparr>pendingAssistantIndex := None, ignoreFinalGuestSse := False\<rparr>
      else (dedup_tail (replace_tail updatedMessages p))
             \<lparr>pendingAssistantIndex := None, ignoreFinalGuestSse := False\<rparr>)"

text \<open>
  The events of one guest stream as the page's callbacks receive them, with the message
  list typed as the callback declares it. An exception of the chunk callback leaves
  \<open>guestChatStream\<close>.
\<close>

datatype stream_event = Chunk string | Snapshot "wire_message list"

fun guest_events :: "stream_event list \<Rightarrow> page \<times> string \<Rightarrow> (page \<times> string) outcome" where
  "guest_events [] s = Returned s"
| "guest_events (Chunk c # es) s =
     (case guest_onChunk c s of Returned s' \<Rightarrow> guest_events es s' | Threw s' \<Rightarrow> Threw s')"
| "guest_events (Snapshot u # es) s = guest_events es (guest_onMessages u (fst s), snd s)"

text \<open>The \<open>catch\<close> branch once \<open>guestChat\<close> has answered.\<close>

definition fallback_request :: "string \<Rightarrow> chat_message list \<Rightarrow> page \<Rightarrow> guest_chat_request" where
  "fallback_request text currentMessages p = guest_request text (slice_drop1 currentMessages) p"

definition fallback_success :: "guest_chat_response \<Rightarrow> page \<Rightarrow> page" where
  "fallback_success r p =
     p\<lparr>messages := map fromWire (resp_messages r),
       pendingAssistantIndex := None,
       ignoreFinalGuestSse := True\<rparr>"

text \<open>
  One whole run of \<open>handleGuestSent\<close> with no other handler in between: the events of
  the stream, how the stream ends, and the answer of \<open>guestChat\<close> when it is called
  (\<open>None\<close>: it throws). The result is the page and how the handler's promise settles.
  Nothing awaits or catches that promise: the input component's \<open>dispatch\<close> returns as
  soon as the handler reaches its first \<open>await\<close>.
\<close>

datatype stream_end = StreamCompletes | StreamFails

datatype settled = Fulfilled | Rejected

definition guest_catch :: "guest_chat_response option \<Rightarrow> page \<Rightarrow> page \<times> settled" where
  "guest_catch answer p =
     (case answer of None \<Rightarrow> (p, Rejected) | Some r \<Rightarrow> (fallback_success r p, Fulfilled))"

definition handleGuestSent ::
  "nat \<Rightarrow> string \<Rightarrow> stream_event list \<Rightarrow> stream_end \<Rightarrow> guest_chat_response option \<Rightarrow> page
   \<Rightarrow> page \<times> settled" where
  "handleGuestSent nowSec text evs e answer p =
     (case handleGuestSent_begin nowSec text p of
        (p', NotStarted) \<Rightarrow> (p', Fulfilled)
      | (p', StreamStarted currentMessages req) \<Rightarrow>
          (case guest_events evs (p', []) of
             Returned s \<Rightarrow>
               (case e of
                  StreamCompletes \<Rightarrow> (fst s, Fulfilled)
                | StreamFails \<Rightarrow> guest_catch answer (fst s))
           | Threw s \<Rightarrow> guest_catch answer (fst s))
      | (p', PlainStarted req) \<Rightarrow>
          (case answer of
             None \<Rightarrow> (p', Rejected)
           | Some r \<Rightarrow> (p'\<lparr>messages := map fromWire (resp_messages r)\<rparr>, Fulfilled)))"

section \<open>The input components (GuestMessageInput.svelte, MessageInput.svelte)\<close>

text \<open>
  \<open>String.prototype.trim\<close>. Text is held as its UTF-8 bytes, so the characters the
  method strips (the white space and line terminator code points) are byte sequences:
  one byte for tab, line feed, vertical tab, form feed, carriage return and space, two
  bytes for U+00A0, three bytes for U+1680, U+2000 to U+200A, U+2028, U+2029, U+202F,
  U+205F, U+3000 and U+FEFF.
\<close>

definition is_space :: "char \<Rightarrow> bool" where
  "is_space c =
     (c = CHR 0x09 \<or> c = LF \<or> c = CHR 0x0B \<or> c = CHR 0x0C \<or> c = CR \<or> c = CHR '' '')"

definition wide_spaces :: "string list" where
  "wide_spaces =
     [[CHR 0xC2, CHR 0xA0],
      [CHR 0xE1, CHR 0x9A, CHR 0x80],
      [CHR 0xE2, CHR 0x80, CHR 0x80], [CHR 0xE2, CHR 0x80, CHR 0x81],
      [CHR 0xE2, CHR 0x80, CHR 0x82], [CHR 0xE2, CHR 0x80, CHR 0x83],
      [CHR 0xE2, CHR 0x80, CHR 0x84], [CHR 0xE2, CHR 0x80, CHR 0x85],
      [CHR 0xE2, CHR 0x80, CHR 0x86], [CHR 0xE2, CHR 0x80, CHR 0x87],
      [CHR 0xE2, CHR 0x80, CHR 0x88], [CHR 0xE2, CHR 0x80, CHR 0x89],
      [CHR 0xE2, CHR 0x80, CHR 0x8A],
      [CHR 0xE2, CHR 0x80, CHR 0xA8], [CHR 0xE2, CHR 0x80, CHR 0xA9],
      [CHR 0xE2, CHR 0x80, CHR 0xAF],
      [CHR 0xE2, CHR 0x81, CHR 0x9F],
      [CHR 0xE3, CHR 0x80, CHR 0x80],
      [CHR 0xEF, CHR 0xBB, CHR 0xBF]]"

definition is_wide_space :: "string \<Rightarrow> bool" where
  "is_wide_space w = (w \<in> set wide_spaces)"

text \<open>
  Stripping from the front. The function \<open>f\<close> puts the bytes looked at into reading
  order: the identity at the start of the text, \<open>rev\<close> when the reversed text is
  stripped to trim the end.
\<close>

fun strip_spaces :: "(string \<Rightarrow> string) \<Rightarrow> string \<Rightarrow> string" where
  "strip_spaces f [] = []"
| "strip_spaces f (c # cs) =
     (if is_space c then strip_spaces f cs
      else if is_wide_space (f (c # take 1 cs)) then strip_spaces f (drop 1 cs)
      else if is_wide_space (f (c # take 2 cs)) then strip_spaces f (drop 2 cs)
      else c # cs)"

definition jsTrim :: "string \<Rightarrow> string" where
  "jsTrim s = rev (strip_spaces rev (rev (strip_spaces id s)))"

record input =
  inp_content :: string
  sending :: bool
  alerts :: "string list"

text \<open>The guard both components open \<open>handleSend\<close> with: \<open>!content.trim() || sending\<close>.\<close>

definition guard_rejects :: "input \<Rightarrow> bool" where
  "guard_rejects inp = (jsTrim (inp_content inp) = [] \<or> sending inp)"

text \<open>
  \<open>handleSend\<close> of the guest input, up to \<open>await tick()\<close>: \<open>None\<close> when the guard
  returns, otherwise the component with \<open>sending\<close> set and the text taken.
\<close>

definition guestInput_begin :: "input \<Rightarrow> (input \<times> string) option" where
  "guestInput_begin inp =
     (if guard_rejects inp then None
      else Some (inp\<lparr>sending := True, inp_content := []\<rparr>, inp_content inp))"

text \<open>
  The rest of it: \<open>dispatch('sent', ...)\<close> runs \<open>handleGuestSent\<close> up to its first
  \<open>await\<close> and returns; the handler is \<open>async\<close>, so nothing is thrown into the \<open>try\<close>
  and the \<open>finally\<close> clears \<open>sending\<close> at once.
\<close>

definition guestInput_resume :: "nat \<Rightarrow> string \<Rightarrow> input \<Rightarrow> page \<Rightarrow> input \<times> page \<times> started" where
  "guestInput_resume nowSec text inp p =
     (let (p', st) = handleGuestSent_begin nowSec text p
      in (inp\<lparr>sending := False\<rparr>, p', st))"

definition guestInput_handleSend :: "nat \<Rightarrow> input \<Rightarrow> page \<Rightarrow> input \<times> page \<times> started" where
  "guestInput_handleSend nowSec inp p =
     (case guestInput_begin inp of
        None \<Rightarrow> (inp, p, NotStarted)
      | Some (inp1, text) \<Rightarrow> guestInput_resume nowSec text inp1 p)"

text \<open>The page's handlers of the events \<open>MessageInput\<close> dispatches.\<close>

definition target_of :: "string option \<Rightarrow> page \<Rightarrow> string option" where
  "target_of chatId p = (case chatId of Some c \<Rightarrow> Some c | None \<Rightarrow> selectedChatId p)"

definition page_streamstart :: "nat \<Rightarrow> string \<Rightarrow> string option \<Rightarrow> page \<Rightarrow> page" where
  "page_streamstart nowSec userText chatId p =
     (let targetId = target_of chatId p in
      if \<not> truthy targetId then p
      else
        (let p1 = (if selectedChatId p \<noteq> targetId
                   then p\<lparr>selectedChatId := targetId, messages := []\<rparr> else p)
         in if truthy (selectedChatId p1) then
              (let p2 = (if userText \<noteq> []
                         then p1\<lparr>messages := messages p1 @
                                [\<lparr>role = ''user'', content = userText, timestamp = Some nowSec,
                                  data = None, placeholder = False, cid = None\<rparr>]\<rparr>
                         else p1);
                   pushed = messages p2 @
                              [\<lparr>role = ''assistant'', content = [], timestamp = None,
                                data = None, placeholder = False, cid = None\<rparr>]
               in p2\<lparr>messages := pushed, pendingAssistantIndex := Some (length pushed - 1)\<rparr>)
            else p1))"

definition page_stream :: "string \<Rightarrow> string option \<Rightarrow> page \<Rightarrow> page outcome" where
  "page_stream partial chatId p =
     (let targetId = target_of chatId p in
      if \<not> truthy targetId \<or> targetId \<noteq> selectedChatId p then Returned p
      else
        (case pendingAssistantIndex p of
           None \<Rightarrow> Returned p
         | Some i \<Rightarrow>
             (if i < length (messages p)
              then Returned (p\<lparr>messages := (messages p)[i := (messages p ! i)\<lparr>content := partial\<rparr>]\<rparr>)
              else Threw p)))"

text \<open>The chunk callback \<open>MessageInput\<close> hands to \<open>streamMessage\<close>, with its local \<open>acc\<close>.\<close>

definition messageInput_onChunk :: "string \<Rightarrow> string \<Rightarrow> page \<times> string \<Rightarrow> (page \<times> string) outcome" where
  "messageInput_onChunk targetChatId chunk s =
     (let acc = snd s @ chunk in
      case page_stream acc (Some targetChatId) (fst s) of
        Returned p' \<Rightarrow> Returned (p', acc)
      | Threw p' \<Rightarrow> Threw (p', acc))"

fun chunk_events ::
  "(string \<Rightarrow> 's \<Rightarrow> 's outcome) \<Rightarrow> string list \<Rightarrow> 's \<Rightarrow> 's outcome" where
  "chunk_events f [] s = Returned s"
| "chunk_events f (c # cs) s =
     (case f c s of Returned s' \<Rightarrow> chunk_events f cs s' | Threw s' \<Rightarrow> Threw s')"

record send_request =
  sm_chat :: string
  sm_content :: string
  sm_use_rag :: "bool option"
  sm_rag_top_k :: "rat option"
  sm_rag_temperature :: "rat option"

definition empty_opts :: stream_opts where
  "empty_opts =
     \<lparr>opt_model = None, opt_temperature = None, opt_api_base = None, opt_use_rag = False,
      opt_rag_top_k = None, opt_rag_temperature = None\<rparr>"

text \<open>
  What \<open>resolveChat\<close> (the page's \<open>getOrCreateChat\<close>) does when \<open>handleSend\<close> awaits it:
  it throws, or it returns a chat id or \<open>null\<close>. It is asked only when \<open>chatId\<close> is
  falsy; a component given no \<open>resolveChat\<close> goes on with its falsy \<open>chatId\<close>, as one
  whose \<open>resolveChat\<close> returns \<open>null\<close> does.
\<close>

datatype chat_resolution = ResolveThrows string | ResolvedTo "string option"

text \<open>
  The \<open>catch\<close> and \<open>finally\<close> of \<open>MessageInput\<close>'s \<open>handleSend\<close>, for an error with the
  given message: the text is put back, \<open>alert(message || 'Failed to send')\<close> is raised
  and \<open>sending\<close> is cleared.
\<close>

definition messageInput_failed :: "string \<Rightarrow> string \<Rightarrow> input \<Rightarrow> input" where
  "messageInput_failed text message inp =
     inp\<lparr>inp_content := text,
         alerts := alerts inp @ [if message \<noteq> [] then message else ''Failed to send''],
         sending := False\<rparr>"

text \<open>
  \<open>handleSend\<close> of \<open>MessageInput\<close> up to the \<open>await\<close> of its request. \<open>chatId\<close> is the
  component's property, \<open>resolved\<close> what \<open>resolveChat\<close> does when it is asked, and \<open>p\<close>
  the page when the request is made; the component's \<open>streaming\<close>, \<open>useRag\<close>, \<open>ragTopK\<close>
  and \<open>ragTemperature\<close> are the page's. \<open>sending\<close> stays set until the request settles.
  \<open>Math.floor(null)\<close> is 0.
\<close>

datatype auth_started =
  GuardRejected | ResolveFailed | NoChat | AuthStream fetch_request | AuthPlain send_request

definition messageInput_handleSend ::
  "nat \<Rightarrow> stores \<Rightarrow> string option \<Rightarrow> chat_resolution \<Rightarrow> input \<Rightarrow> page
   \<Rightarrow> input \<times> page \<times> auth_started" where
  "messageInput_handleSend nowSec s chatId resolved inp p =
     (if guard_rejects inp then (inp, p, GuardRejected)
      else
        (let text = inp_content inp; inp1 = inp\<lparr>sending := True\<rparr> in
         case (if truthy chatId then ResolvedTo chatId else resolved) of
           ResolveThrows message \<Rightarrow> (messageInput_failed text message inp1, p, ResolveFailed)
         | ResolvedTo target \<Rightarrow>
             (if \<not> truthy target then
                (messageInput_failed text ''Unable to determine chat room'' inp1, p, NoChat)
              else
                (let inp2 = inp1\<lparr>inp_content := []\<rparr> in
                 if streaming p \<and> \<not> useRag p then
                   (inp2, page_streamstart nowSec text target p,
                    AuthStream (streamMessage_request s (the target) text empty_opts))
                 else
                   (inp2, p,
                    AuthPlain
                      \<lparr>sm_chat = the target, sm_content = text,
                       sm_use_rag = (if useRag p then Some True else None),
                       sm_rag_top_k =
                         (if useRag p
                          then Some (max 1 (of_int \<lfloor>case ragTopK p of None \<Rightarrow> 0 | Some k \<Rightarrow> k\<rfloor>))
                          else None),
                       sm_rag_temperature =
                         (if useRag p
                          then (case ragTemperature p of
                                  None \<Rightarrow> None
                                | Some t \<Rightarrow> Some (min 2 (max 0 t)))
                          else None)\<rparr>)))))"

text \<open>The page as its declarations initialise it.\<close>

definition initial_page :: page where
  "initial_page =
     \<lparr>messages = [], streaming = True, useRag = False, ragTopK = Some 4,
      ragTemperature = Some (3 / 10),
      pendingAssistantIndex = None, ignoreFinalGuestSse = False, cidCounter = 0,
      selectedChatId = None\<rparr>"

definition initial_input :: input where
  "initial_input = \<lparr>inp_content = [], sending = False, alerts = []\<rparr>"

section \<open>The fallback request and the backend\<close>

text \<open>
  The request \<open>handleGuestSent\<close> hands to \<open>guestChat\<close> when it calls it: in the \<open>catch\<close>
  of the streaming branch (reached when the stream fails; the request does not depend
  on how far the stream got) and in the plain branch.
\<close>

definition guestChat_call :: "nat \<Rightarrow> string \<Rightarrow> stream_event list \<Rightarrow> page \<Rightarrow> guest_chat_request option" where
  "guestChat_call nowSec text evs p =
     (case handleGuestSent_begin nowSec text p of
        (p', NotStarted) \<Rightarrow> None
      | (p', StreamStarted currentMessages req) \<Rightarrow>
          (case guest_events evs (p', []) of
             Returned s \<Rightarrow> Some (fallback_request text currentMessages (fst s))
           | Threw s \<Rightarrow> Some (fallback_request text currentMessages (fst s)))
      | (p', PlainStarted req) \<Rightarrow> Some req)"

text \<open>
  \<open>handleGuestSent\<close> against a backend: the answer of \<open>guestChat\<close> is what the backend
  makes of the request it is sent (\<open>None\<close>: the call throws).
\<close>

definition handleGuestSent_with ::
  "(guest_chat_request \<Rightarrow> guest_chat_response option) \<Rightarrow> nat \<Rightarrow> string
   \<Rightarrow> stream_event list \<Rightarrow> stream_end \<Rightarrow> page \<Rightarrow> page \<times> settled" where
  "handleGuestSent_with guestChat nowSec text evs e p =
     handleGuestSent nowSec text evs e
       (case guestChat_call nowSec text evs p of None \<Rightarrow> None | Some req \<Rightarrow> guestChat req) p"

text \<open>
  Modelled from the spec: the backend behind \<open>guestChat\<close> (the spec's \<open>sendOnce\<close>), which
  is not among the sources. It "returns a complete answer plus the full updated
  transcript in one response" and "receives history + new content as separate fields,
  never duplicated": the transcript it returns is the history it was sent, then the
  user message for the content, then the assistant's answer.
\<close>

definition sendOnce_backend :: "string \<Rightarrow> nat \<Rightarrow> guest_chat_request \<Rightarrow> guest_chat_response" where
  "sendOnce_backend answer now req =
     \<lparr>resp_response = answer,
      resp_messages =
        map toWire (gc_messages req) @
        [\<lparr>role = ''user'', content = gc_content req, timestamp = Some now, data = None\<rparr>,
         \<lparr>role = ''assistant'', content = answer, timestamp = Some now, data = None\<rparr>],
      resp_data = None\<rparr>"

section \<open>Predicates the properties are stated with\<close>

text \<open>The final two entries of a transcript agree in role and in content.\<close>

definition tail_duplicated :: "chat_message list \<Rightarrow> bool" where
  "tail_duplicated xs =
     (2 \<le> length xs \<and> role (last xs) = role (last (butlast xs))
      \<and> content (last xs) = content (last (butlast xs)))"

text \<open>The handler has opened a streaming request.\<close>

fun opens_stream :: "started \<Rightarrow> bool" where
  "opens_stream (StreamStarted currentMessages req) = True"
| "opens_stream st = False"

fun auth_opens_stream :: "auth_started \<Rightarrow> bool" where
  "auth_opens_stream (AuthStream req) = True"
| "auth_opens_stream st = False"

section \<open>Guest mode and the authentication flag\<close>

text \<open>
  C10. Entering guest mode sets the \<open>isAuthenticated\<close> store to true, the user store to
  the canned guest identity and clears the token store. A successful login sets
  \<open>isAuthenticated\<close> to true as well, so the flag alone is the same in both sessions;
  the \<open>isGuest\<close> store is what differs.
\<close>

theorem setGuestMode_authenticated:
  "isAuthenticated (setGuestMode s) = True
   \<and> user (setGuestMode s) = Some guestUser
   \<and> token (setGuestMode s) = None
   \<and> isGuest (setGuestMode s) = True
   \<and> isAuthenticated (setGuestMode s) = isAuthenticated (loginSucceeded tok u s')
   \<and> isGuest (setGuestMode s) \<noteq> isGuest (loginSucceeded tok u s')"
  by (simp add: setGuestMode_def loginSucceeded_def)

section \<open>Headers of the streaming requests\<close>

text \<open>
  C9. Both streaming requests are sent with \<open>cache: 'no-store'\<close>. The authenticated
  stream carries \<open>Authorization: Bearer <token>\<close> exactly when \<open>getToken\<close> yields a
  token (a non-empty string; \<open>null\<close> and the empty string are falsy); the guest stream
  carries no \<open>Authorization\<close> header, whatever the stores hold.
\<close>

theorem stream_requests_cache_and_auth:
  "req_cache (streamMessage_request s chat_id text opts) = ''no-store''
   \<and> req_cache (guestChatStream_request text history opts) = ''no-store''
   \<and> map_of (req_headers (streamMessage_request s chat_id text opts)) ''Authorization''
       = (if truthy (getToken s) then Some (''Bearer '' @ the (getToken s)) else None)
   \<and> map_of (req_headers (guestChatStream_request text history opts)) ''Authorization'' = None"
  by (simp add: streamMessage_request_def guestChatStream_request_def Let_def)

section \<open>Classification of the lines of a stream\<close>

lemma guest_line_parse_failure:
  "parse d = None \<Longrightarrow> d \<noteq> ''[DONE]'' \<Longrightarrow>
   guest_line parse (Some record_chunk) (Some record_messages) (''data: '' @ d) tr
     = Continue (tr @ [TextChunk d])"
  by (simp add: guest_line_def startsWith_def call_chunk_def record_chunk_def)

lemma guest_line_null:
  "parse d = Some JNull \<Longrightarrow> d \<noteq> ''[DONE]'' \<Longrightarrow>
   guest_line parse (Some record_chunk) (Some record_messages) (''data: '' @ d) tr
     = Continue (tr @ [TextChunk d])"
  by (simp add: guest_line_def startsWith_def call_chunk_def record_chunk_def)

lemma guest_line_messages:
  "parse d = Some (JObject kvs) \<Longrightarrow> map_of kvs ''type'' = Some (JString ''messages'') \<Longrightarrow>
   d \<noteq> ''[DONE]'' \<Longrightarrow>
   guest_line parse (Some record_chunk) (Some record_messages) (''data: '' @ d) tr
     = Continue (tr @ [Control (map_of kvs ''data'')])"
  by (simp add: guest_line_def startsWith_def record_messages_def)

text \<open>
  A payload that parses to anything but \<open>null\<close> and does not carry \<open>type: 'messages'\<close>
  reaches neither callback in \<open>guestChatStream\<close>, whatever the callbacks are.
\<close>

lemma guest_line_other_json:
  "parse d = Some v \<Longrightarrow> get_prop v ''type'' = Some ty \<Longrightarrow> ty \<noteq> Some (JString ''messages'') \<Longrightarrow>
   d \<noteq> ''[DONE]'' \<Longrightarrow>
   guest_line parse onChunk onMessages (''data: '' @ d) tr = Continue tr"
  by (simp add: guest_line_def startsWith_def)

text \<open>\<open>streamMessage\<close> hands every payload but \<open>[DONE]\<close> to \<open>onChunk\<close>.\<close>

lemma stream_line_chunk:
  "d \<noteq> ''[DONE]'' \<Longrightarrow>
   stream_line (Some record_chunk) (''data: '' @ d) tr = Continue (tr @ [TextChunk d])"
  by (simp add: stream_line_def startsWith_def call_chunk_def record_chunk_def)

text \<open>
  C5. Every complete \<open>data: \<close> line whose payload is not \<open>[DONE]\<close> should yield an
  event: a control event for a parsed object with the discriminator, a text chunk
  carrying the payload otherwise. The guest stream below delivers the payload \<open>42\<close>
  (split over two reads) and then \<open>[DONE]\<close>. \<open>JSON.parse('42')\<close> is the number 42, so
  the \<open>try\<close> block ends without a call and the \<open>catch\<close> is not entered: no event is
  recorded. \<open>streamMessage\<close> on the same body records the text chunk \<open>42\<close>.
\<close>

theorem guestChatStream_drops_json_payload:
  "guestChatStream (\<lambda>d. if d = ''42'' then Some (JNumber 42) else None)
      (Some record_chunk) (Some record_messages)
      (Body [''data: 4'', ''2'' @ [LF, LF] @ ''data: [DONE]'' @ [LF, LF]] EndOfBody) []
     = Returned []
   \<and> streamMessage (Some record_chunk)
      (Body [''data: 4'', ''2'' @ [LF, LF] @ ''data: [DONE]'' @ [LF, LF]] EndOfBody) []
     = Returned [TextChunk ''42'']"
  by (simp add: guestChatStream_def streamMessage_def split_lines_def LF_def CR_def
      guest_line_def stream_line_def startsWith_def call_chunk_def record_chunk_def)

section \<open>Chunks accumulate in delivery order\<close>

lemma guest_events_chunks:
  "pendingAssistantIndex p = Some i \<Longrightarrow> i < length (messages p) \<Longrightarrow>
   content (messages p ! i) = acc \<Longrightarrow>
   guest_events (map Chunk cs) (p, acc)
     = Returned (p\<lparr>messages := (messages p)[i := (messages p ! i)\<lparr>content := acc @ concat cs\<rparr>]\<rparr>,
                 acc @ concat cs)"
proof (induction cs arbitrary: p acc)
  case Nil
  have "(messages p ! i)\<lparr>content := acc\<rparr> = messages p ! i"
    using Nil(3) [symmetric] by simp
  then show ?case by simp
next
  case (Cons c cs)
  let ?p = "p\<lparr>messages := (messages p)[i := (messages p ! i)\<lparr>content := acc @ c\<rparr>]\<rparr>"
  have step: "guest_onChunk c (p, acc) = Returned (?p, acc @ c)"
    using Cons.prems by (simp add: guest_onChunk_def Let_def)
  have "guest_events (map Chunk cs) (?p, acc @ c)
      = Returned (?p\<lparr>messages := (messages ?p)[i := (messages ?p ! i)\<lparr>content := (acc @ c) @ concat cs\<rparr>]\<rparr>,
                 (acc @ c) @ concat cs)"
    by (rule Cons.IH) (use Cons.prems in simp_all)
  then show ?case using step Cons.prems by simp
qed

lemma begin_streaming:
  "text \<noteq> [] \<Longrightarrow> streaming p \<Longrightarrow> \<not> useRag p \<Longrightarrow>
   handleGuestSent_begin nowSec text p =
     (let pushed = messages p @ [user_message text nowSec (show_nat (cidCounter p + 1)),
                                 placeholder_message (show_nat (cidCounter p + 2))]
      in (p\<lparr>cidCounter := cidCounter p + 2, messages := pushed,
            pendingAssistantIndex := Some (length (messages p) + 1),
            ignoreFinalGuestSse := False\<rparr>,
          StreamStarted pushed
            (guestChatStream_request text (messages p @ [user_message text nowSec (show_nat (cidCounter p + 1))])
               (guest_opts p))))"
  by (simp add: handleGuestSent_begin_def nextCid_def Let_def guest_opts_def butlast_append)

lemma chunk_events_messageInput:
  "selectedChatId p = Some target \<Longrightarrow> target \<noteq> [] \<Longrightarrow>
   pendingAssistantIndex p = Some i \<Longrightarrow> i < length (messages p) \<Longrightarrow>
   content (messages p ! i) = acc \<Longrightarrow>
   chunk_events (messageInput_onChunk target) cs (p, acc)
     = Returned (p\<lparr>messages := (messages p)[i := (messages p ! i)\<lparr>content := acc @ concat cs\<rparr>]\<rparr>,
                 acc @ concat cs)"
proof (induction cs arbitrary: p acc)
  case Nil
  have "(messages p ! i)\<lparr>content := acc\<rparr> = messages p ! i"
    using Nil(5) [symmetric] by simp
  then show ?case by simp
next
  case (Cons c cs)
  let ?p = "p\<lparr>messages := (messages p)[i := (messages p ! i)\<lparr>content := acc @ c\<rparr>]\<rparr>"
  have step: "messageInput_onChunk target c (p, acc) = Returned (?p, acc @ c)"
    using Cons.prems
    by (simp add: messageInput_onChunk_def page_stream_def target_of_def Let_def)
  have "chunk_events (messageInput_onChunk target) cs (?p, acc @ c)
      = Returned (?p\<lparr>messages := (messages ?p)[i := (messages ?p ! i)\<lparr>content := (acc @ c) @ concat cs\<rparr>]\<rparr>,
                 (acc @ c) @ concat cs)"
    by (rule Cons.IH) (use Cons.prems in simp_all)
  then show ?case using step Cons.prems by simp
qed

lemma page_streamstart_appends:
  "text \<noteq> [] \<Longrightarrow> target \<noteq> [] \<Longrightarrow>
   page_streamstart nowSec text (Some target) p =
     p\<lparr>selectedChatId := Some target,
       messages := (if selectedChatId p = Some target then messages p else []) @
         [\<lparr>role = ''user'', content = text, timestamp = Some nowSec, data = None,
           placeholder = False, cid = None\<rparr>,
          \<lparr>role = ''assistant'', content = [], timestamp = None, data = None,
           placeholder = False, cid = None\<rparr>],
       pendingAssistantIndex :=
         Some (length (if selectedChatId p = Some target then messages p else []) + 1)\<rparr>"
  by (cases p) (simp add: page_streamstart_def target_of_def Let_def)

text \<open>
  C1. For every sequence of text chunks \<open>cs\<close> delivered during one streaming send, the
  placeholder's content after the last chunk is \<open>concat cs\<close>, the chunks in delivery
  order, and so is the accumulator. This holds for the guest page (\<open>handleGuestSent\<close>)
  and for the authenticated path (\<open>MessageInput\<close> dispatching \<open>stream\<close> to the page);
  in both the callback returns on every chunk.
\<close>

theorem chunks_concatenate_in_order:
  assumes "text \<noteq> []" and "streaming p" and "\<not> useRag p" and "target \<noteq> []"
  shows "guest_events (map Chunk cs) (fst (handleGuestSent_begin nowSec text p), [])
           = Returned ((fst (handleGuestSent_begin nowSec text p))
                \<lparr>messages := messages p @
                   [user_message text nowSec (show_nat (cidCounter p + 1)),
                    (placeholder_message (show_nat (cidCounter p + 2)))\<lparr>content := concat cs\<rparr>]\<rparr>,
              concat cs)
         \<and> chunk_events (messageInput_onChunk target) cs
              (page_streamstart nowSec text (Some target) p, [])
           = Returned ((page_streamstart nowSec text (Some target) p)
                \<lparr>messages := (if selectedChatId p = Some target then messages p else []) @
                   [\<lparr>role = ''user'', content = text, timestamp = Some nowSec, data = None,
                     placeholder = False, cid = None\<rparr>,
                    \<lparr>role = ''assistant'', content = concat cs, timestamp = None, data = None,
                     placeholder = False, cid = None\<rparr>]\<rparr>,
              concat cs)"
proof
  let ?b = "fst (handleGuestSent_begin nowSec text p)"
  have b: "?b = p\<lparr>cidCounter := cidCounter p + 2,
              messages := messages p @ [user_message text nowSec (show_nat (cidCounter p + 1)),
                                        placeholder_message (show_nat (cidCounter p + 2))],
              pendingAssistantIndex := Some (length (messages p) + 1),
              ignoreFinalGuestSse := False\<rparr>"
    using assms by (simp add: begin_streaming Let_def)
  have "guest_events (map Chunk cs) (?b, [])
      = Returned (?b\<lparr>messages := (messages ?b)[length (messages p) + 1 :=
                      (messages ?b ! (length (messages p) + 1))\<lparr>content := [] @ concat cs\<rparr>]\<rparr>,
                  [] @ concat cs)"
    by (rule guest_events_chunks) (simp_all add: b placeholder_message_def nth_append)
  then show "guest_events (map Chunk cs) (?b, [])
           = Returned (?b\<lparr>messages := messages p @
                   [user_message text nowSec (show_nat (cidCounter p + 1)),
                    (placeholder_message (show_nat (cidCounter p + 2)))\<lparr>content := concat cs\<rparr>]\<rparr>,
              concat cs)"
    by (simp add: b nth_append list_update_append)
next
  let ?base = "if selectedChatId p = Some target then messages p else []"
  let ?s = "page_streamstart nowSec text (Some target) p"
  have s: "?s = p\<lparr>selectedChatId := Some target,
       messages := ?base @
         [\<lparr>role = ''user'', content = text, timestamp = Some nowSec, data = None,
           placeholder = False, cid = None\<rparr>,
          \<lparr>role = ''assistant'', content = [], timestamp = None, data = None,
           placeholder = False, cid = None\<rparr>],
       pendingAssistantIndex := Some (length ?base + 1)\<rparr>"
    using assms by (rule_tac page_streamstart_appends)
  have "chunk_events (messageInput_onChunk target) cs (?s, [])
      = Returned (?s\<lparr>messages := (messages ?s)[length ?base + 1 :=
                      (messages ?s ! (length ?base + 1))\<lparr>content := [] @ concat cs\<rparr>]\<rparr>,
                  [] @ concat cs)"
    by (rule chunk_events_messageInput) (use assms in \<open>simp_all add: s nth_append\<close>)
  then show "chunk_events (messageInput_onChunk target) cs (?s, [])
           = Returned (?s\<lparr>messages := ?base @
                   [\<lparr>role = ''user'', content = text, timestamp = Some nowSec, data = None,
                     placeholder = False, cid = None\<rparr>,
                    \<lparr>role = ''assistant'', content = concat cs, timestamp = None, data = None,
                     placeholder = False, cid = None\<rparr>]\<rparr>,
              concat cs)"
    by (simp add: s nth_append list_update_append)
qed


lemma show_nat_1: "show_nat (0 + 1) = ''1''" and show_nat_2: "show_nat (0 + 2) = ''2''"
  by (simp_all add: show_nat.simps digit_char_def)

theorem chunks_concatenate_in_order_witness:
  "''hello'' \<noteq> [] \<and> streaming initial_page \<and> \<not> useRag initial_page \<and> ''c1'' \<noteq> []
   \<and> guest_events (map Chunk [''He'', ''llo'', ''!''])
        (fst (handleGuestSent_begin 0 ''hello'' initial_page), [])
      = Returned ((fst (handleGuestSent_begin 0 ''hello'' initial_page))
           \<lparr>messages := [user_message ''hello'' 0 ''1'',
                         (placeholder_message ''2'')\<lparr>content := ''Hello!''\<rparr>]\<rparr>,
         ''Hello!'')"
proof -
  have h1: "''hello'' \<noteq> []" and h4: "''c1'' \<noteq> []" by simp_all
  have h2: "streaming initial_page" and h3: "\<not> useRag initial_page"
    by (simp_all add: initial_page_def)
  have c: "concat [''He'', ''llo'', ''!''] = ''Hello!''" by simp
  have m: "messages initial_page = []" "cidCounter initial_page = 0"
    by (simp_all add: initial_page_def)
  note t = chunks_concatenate_in_order [OF h1 h2 h3 h4, of "[''He'', ''llo'', ''!'']" 0]
  show ?thesis
    using h1 h2 h3 h4 t [THEN conjunct1, unfolded c m append_Nil show_nat_1 show_nat_2]
    by blast
qed

section \<open>Reconciliation with a snapshot\<close>

lemma last_two_nth:
  assumes "2 \<le> length xs"
  shows "xs ! (length xs - 1) = last xs \<and> xs ! (length xs - 2) = last (butlast xs)"
proof -
  from assms have ne: "xs \<noteq> []" by auto
  then have a: "xs ! (length xs - 1) = last xs" by (simp add: last_conv_nth)
  have "length (butlast xs) = length xs - 1" by simp
  with assms have l: "length (butlast xs) \<noteq> 0" by arith
  have ne2: "butlast xs \<noteq> []"
  proof
    assume "butlast xs = []"
    then have "length (butlast xs) = 0" by (simp only: list.size)
    with l show False by blast
  qed
  have "last (butlast xs) = butlast xs ! (length (butlast xs) - 1)"
    using ne2 by (rule last_conv_nth)
  also have "length (butlast xs) - 1 = length xs - 2" by simp
  also have "butlast xs ! (length xs - 2) = xs ! (length xs - 2)"
    using assms by (simp add: nth_butlast)
  finally have b: "xs ! (length xs - 2) = last (butlast xs)" by simp
  show ?thesis using a b by simp
qed

lemma dedup_tail_messages:
  "messages (dedup_tail p) = (if tail_duplicated (messages p) then butlast (messages p) else messages p)"
proof (cases "2 \<le> length (messages p)")
  case True
  then show ?thesis
    using last_two_nth [OF True]
    by (simp add: dedup_tail_def tail_duplicated_def Let_def slice_drop1_def butlast_conv_take)
next
  case False
  then show ?thesis by (simp add: dedup_tail_def tail_duplicated_def)
qed

lemma guest_onMessages_messages:
  "\<not> ignoreFinalGuestSse p \<Longrightarrow>
   messages (guest_onMessages upd p) =
     (if tail_duplicated (messages (replace_tail upd p))
      then butlast (messages (replace_tail upd p)) else messages (replace_tail upd p))"
  by (simp add: guest_onMessages_def dedup_tail_messages)

text \<open>
  C2 (as amended). When a snapshot arrives while the placeholder is still present, the
  callback replaces the transcript's last two entries by the snapshot's last two and
  then runs the tail de-duplication once: the result is
  \<open>old[0 .. n-2] ++ lastTwo\<close> with its very last entry dropped when its final two
  entries agree in role and content, and exactly \<open>old[0 .. n-2] ++ lastTwo\<close> when they
  do not. The pending index is cleared.
\<close>

theorem reconcile_replaces_last_two:
  assumes "\<not> ignoreFinalGuestSse p" and "placeholder_present p"
  shows "messages (guest_onMessages upd p) =
           (let xs = take (length (messages p) - 2) (messages p)
                     @ map fromWire (drop (length upd - 2) upd)
            in if tail_duplicated xs then butlast xs else xs)
         \<and> pendingAssistantIndex (guest_onMessages upd p) = None
         \<and> (\<not> tail_duplicated (take (length (messages p) - 2) (messages p)
                                  @ map fromWire (drop (length upd - 2) upd)) \<longrightarrow>
              messages (guest_onMessages upd p) =
                take (length (messages p) - 2) (messages p)
                @ map fromWire (drop (length upd - 2) upd))"
proof -
  let ?xs = "take (length (messages p) - 2) (messages p) @ map fromWire (drop (length upd - 2) upd)"
  have r: "messages (replace_tail upd p) = ?xs"
    using assms(2) by (simp add: replace_tail_def slice_drop2_def slice_last2_def)
  have m: "messages (guest_onMessages upd p) = (if tail_duplicated ?xs then butlast ?xs else ?xs)"
    using assms(1) by (simp add: guest_onMessages_messages r)
  have i: "pendingAssistantIndex (guest_onMessages upd p) = None"
    by (simp add: guest_onMessages_def)
  show ?thesis using m i by (simp add: Let_def)
qed


theorem reconcile_replaces_last_two_witness:
  "\<not> ignoreFinalGuestSse
       (initial_page\<lparr>messages := [user_message ''hi'' 0 ''1'', placeholder_message ''2''],
                      pendingAssistantIndex := Some 1\<rparr>)
   \<and> placeholder_present
       (initial_page\<lparr>messages := [user_message ''hi'' 0 ''1'', placeholder_message ''2''],
                      pendingAssistantIndex := Some 1\<rparr>)
   \<and> messages (guest_onMessages
         [\<lparr>role = ''user'', content = ''hi'', timestamp = Some 0, data = None\<rparr>,
          \<lparr>role = ''assistant'', content = ''Hi there.'', timestamp = Some 1, data = None\<rparr>]
         (initial_page\<lparr>messages := [user_message ''hi'' 0 ''1'', placeholder_message ''2''],
                        pendingAssistantIndex := Some 1\<rparr>))
       = [fromWire \<lparr>role = ''user'', content = ''hi'', timestamp = Some 0, data = None\<rparr>,
          fromWire \<lparr>role = ''assistant'', content = ''Hi there.'', timestamp = Some 1, data = None\<rparr>]"
  using reconcile_replaces_last_two
    [of "initial_page\<lparr>messages := [user_message ''hi'' 0 ''1'', placeholder_message ''2''],
                      pendingAssistantIndex := Some 1\<rparr>"
        "[\<lparr>role = ''user'', content = ''hi'', timestamp = Some 0, data = None\<rparr>,
          \<lparr>role = ''assistant'', content = ''Hi there.'', timestamp = Some 1, data = None\<rparr>]"]
  by (simp add: initial_page_def placeholder_present_def placeholder_message_def
      tail_duplicated_def fromWire_def Let_def)

text \<open>
  The claim as stated, without the de-duplication, fails for a snapshot whose last two
  entries agree in role and content: the transcript \<open>[user, placeholder]\<close> becomes one
  entry, not the snapshot's two.
\<close>

theorem reconcile_result_counterexample:
  "placeholder_present
       (initial_page\<lparr>messages := [user_message ''hi'' 0 ''1'', placeholder_message ''2''],
                      pendingAssistantIndex := Some 1\<rparr>)
   \<and> length (messages
       (initial_page\<lparr>messages := [user_message ''hi'' 0 ''1'', placeholder_message ''2''],
                      pendingAssistantIndex := Some 1\<rparr>)) = 2
   \<and> messages (guest_onMessages
         [\<lparr>role = ''assistant'', content = ''Hi'', timestamp = None, data = None\<rparr>,
          \<lparr>role = ''assistant'', content = ''Hi'', timestamp = None, data = None\<rparr>]
         (initial_page\<lparr>messages := [user_message ''hi'' 0 ''1'', placeholder_message ''2''],
                        pendingAssistantIndex := Some 1\<rparr>))
       \<noteq> take 0 [user_message ''hi'' 0 ''1'', placeholder_message ''2'']
         @ map fromWire
            (slice_last2
              [\<lparr>role = ''assistant'', content = ''Hi'', timestamp = None, data = None\<rparr>,
               \<lparr>role = ''assistant'', content = ''Hi'', timestamp = None, data = None\<rparr>])"
  by (simp add: initial_page_def placeholder_present_def placeholder_message_def
      guest_onMessages_def replace_tail_def dedup_tail_def slice_drop1_def slice_drop2_def
      slice_last2_def fromWire_def Let_def)

section \<open>The tail de-duplication\<close>

text \<open>
  C4 (as amended). After a snapshot has been reconciled the de-duplication has run
  once: when the transcript after the replacement ends in two entries that agree in role
  and content, its very last entry is dropped, and otherwise nothing is. The entries
  that are at the tail afterwards are not compared again, so the final two differ
  whenever the transcript did not end in three such entries. After a successful
  fallback the transcript is the response's message list as it came, with no
  de-duplication.
\<close>

theorem dedup_runs_once_after_snapshot:
  "(\<not> ignoreFinalGuestSse p \<longrightarrow>
      messages (guest_onMessages upd p) =
        (if tail_duplicated (messages (replace_tail upd p))
         then butlast (messages (replace_tail upd p))
         else messages (replace_tail upd p))
      \<and> (\<not> tail_duplicated (butlast (messages (replace_tail upd p))) \<longrightarrow>
           \<not> tail_duplicated (messages (guest_onMessages upd p))))
   \<and> messages (fallback_success r p) = map fromWire (resp_messages r)"
  by (simp add: guest_onMessages_messages fallback_success_def)

theorem dedup_runs_once_after_snapshot_witness:
  "\<not> ignoreFinalGuestSse
       (initial_page\<lparr>messages := [user_message ''hi'' 0 ''1'', placeholder_message ''2''],
                      pendingAssistantIndex := Some 1\<rparr>)
   \<and> \<not> tail_duplicated (butlast (messages (replace_tail
         [\<lparr>role = ''assistant'', content = ''Hi'', timestamp = None, data = None\<rparr>,
          \<lparr>role = ''assistant'', content = ''Hi'', timestamp = None, data = None\<rparr>]
         (initial_page\<lparr>messages := [user_message ''hi'' 0 ''1'', placeholder_message ''2''],
                        pendingAssistantIndex := Some 1\<rparr>))))
   \<and> \<not> tail_duplicated (messages (guest_onMessages
         [\<lparr>role = ''assistant'', content = ''Hi'', timestamp = None, data = None\<rparr>,
          \<lparr>role = ''assistant'', content = ''Hi'', timestamp = None, data = None\<rparr>]
         (initial_page\<lparr>messages := [user_message ''hi'' 0 ''1'', placeholder_message ''2''],
                        pendingAssistantIndex := Some 1\<rparr>)))"
  using dedup_runs_once_after_snapshot
    [of "initial_page\<lparr>messages := [user_message ''hi'' 0 ''1'', placeholder_message ''2''],
                      pendingAssistantIndex := Some 1\<rparr>"
        "[\<lparr>role = ''assistant'', content = ''Hi'', timestamp = None, data = None\<rparr>,
          \<lparr>role = ''assistant'', content = ''Hi'', timestamp = None, data = None\<rparr>]"]
  by (simp add: initial_page_def placeholder_present_def placeholder_message_def
      replace_tail_def slice_drop2_def slice_last2_def tail_duplicated_def)

text \<open>
  The claim as stated fails after a fallback: the stream fails at once, \<open>guestChat\<close>
  answers with a list whose last two entries agree in role and content, and both stay.
\<close>

theorem fallback_tail_counterexample:
  "snd (handleGuestSent 0 ''hi'' [] StreamFails
         (Some \<lparr>resp_response = ''Hi'',
                resp_messages =
                  [\<lparr>role = ''user'', content = ''hi'', timestamp = Some 0, data = None\<rparr>,
                   \<lparr>role = ''assistant'', content = ''Hi'', timestamp = Some 1, data = None\<rparr>,
                   \<lparr>role = ''assistant'', content = ''Hi'', timestamp = Some 1, data = None\<rparr>],
                resp_data = None\<rparr>)
         initial_page) = Fulfilled
   \<and> tail_duplicated (messages (fst (handleGuestSent 0 ''hi'' [] StreamFails
         (Some \<lparr>resp_response = ''Hi'',
                resp_messages =
                  [\<lparr>role = ''user'', content = ''hi'', timestamp = Some 0, data = None\<rparr>,
                   \<lparr>role = ''assistant'', content = ''Hi'', timestamp = Some 1, data = None\<rparr>,
                   \<lparr>role = ''assistant'', content = ''Hi'', timestamp = Some 1, data = None\<rparr>],
                resp_data = None\<rparr>)
         initial_page)))"
  by (simp add: handleGuestSent_def handleGuestSent_begin_def nextCid_def initial_page_def
      guest_catch_def fallback_success_def tail_duplicated_def fromWire_def Let_def)

section \<open>The fallback\<close>

lemma handleGuestSent_stream_fails:
  "text \<noteq> [] \<Longrightarrow> streaming p \<Longrightarrow> \<not> useRag p \<Longrightarrow>
   handleGuestSent nowSec text evs StreamFails (Some r) p
     = (fallback_success r
          (fst (case guest_events evs (fst (handleGuestSent_begin nowSec text p), []) of
                  Returned s \<Rightarrow> s | Threw s \<Rightarrow> s)),
        Fulfilled)"
  by (simp add: handleGuestSent_def begin_streaming Let_def guest_catch_def split: outcome.splits)

lemma fallback_history_keeps_user_message:
  "text \<noteq> [] \<Longrightarrow> streaming p \<Longrightarrow> \<not> useRag p \<Longrightarrow>
   handleGuestSent_begin nowSec text p = (p', StreamStarted currentMessages req) \<Longrightarrow>
   gc_messages (fallback_request text currentMessages p')
     = messages p @ [user_message text nowSec (show_nat (cidCounter p + 1))]"
  by (auto simp add: begin_streaming Let_def fallback_request_def guest_request_def slice_drop1_def)

lemma fallback_result_is_response:
  "text \<noteq> [] \<Longrightarrow> streaming p \<Longrightarrow> \<not> useRag p \<Longrightarrow>
   snd (handleGuestSent nowSec text evs StreamFails (Some r) p) = Fulfilled
   \<and> messages (fst (handleGuestSent nowSec text evs StreamFails (Some r) p))
       = map fromWire (resp_messages r)
   \<and> pendingAssistantIndex (fst (handleGuestSent nowSec text evs StreamFails (Some r) p)) = None"
  by (simp add: handleGuestSent_stream_fails fallback_success_def)

lemma guestChat_call_streaming:
  "text \<noteq> [] \<Longrightarrow> streaming p \<Longrightarrow> \<not> useRag p \<Longrightarrow>
   guestChat_call nowSec text evs p
     = Some (guest_request text
               (messages p @ [user_message text nowSec (show_nat (cidCounter p + 1))])
               (fst (case guest_events evs (fst (handleGuestSent_begin nowSec text p), []) of
                       Returned s \<Rightarrow> s | Threw s \<Rightarrow> s)))"
  by (simp add: guestChat_call_def begin_streaming Let_def fallback_request_def slice_drop1_def
      split: outcome.splits)

text \<open>The plain branch sends the pre-send transcript as history.\<close>

lemma guestChat_call_plain:
  "text \<noteq> [] \<Longrightarrow> \<not> (streaming p \<and> \<not> useRag p) \<Longrightarrow>
   gc_messages (the (guestChat_call nowSec text evs p)) = messages p
   \<and> gc_content (the (guestChat_call nowSec text evs p)) = text"
  by (auto simp add: guestChat_call_def handleGuestSent_begin_def nextCid_def Let_def
      guest_request_def)

text \<open>
  The fallback sends the pre-send transcript and the optimistic user message as history,
  whatever the stream delivered before it failed.
\<close>

lemma fallback_history_has_user_message:
  assumes "text \<noteq> []" and "streaming p" and "\<not> useRag p"
  shows "gc_content (the (guestChat_call nowSec text evs p)) = text
         \<and> gc_messages (the (guestChat_call nowSec text evs p))
             = messages p @ [user_message text nowSec (show_nat (cidCounter p + 1))]"
  using assms by (simp add: guestChat_call_streaming guest_request_def)

text \<open>
  Against the backend of the spec the fallback leaves three entries more than the
  pre-send transcript, for every pre-send transcript and every stream that fails.
\<close>

lemma fallback_with_backend_length:
  assumes "text \<noteq> []" and "streaming p" and "\<not> useRag p"
  shows "length (messages (fst (handleGuestSent_with (\<lambda>req. Some (sendOnce_backend answer now req))
                                  nowSec text evs StreamFails p)))
           = length (messages p) + 3"
  using assms
  by (simp add: handleGuestSent_with_def guestChat_call_streaming fallback_result_is_response
      sendOnce_backend_def guest_request_def)

text \<open>
  C3. On fallback success the transcript should be the pre-send transcript and the new
  pair, its length the pre-send length plus 2. The handler does put the response's list
  in place of the optimistic pair (\<open>fallback_result_is_response\<close>). But
  \<open>messages.push(placeholder)\<close> appended to the array \<open>currentMessages\<close> denotes, so
  \<open>currentMessages.slice(0, -1)\<close> drops the placeholder and not the user message its
  comment says it excludes: the text reaches the backend as the last history entry and
  as \<open>content\<close>. Below, on the empty transcript, \<open>hi\<close> is sent and the stream fails at
  once; the backend returns the history it was sent and the new pair, and the transcript
  ends with three entries, the user message twice. The plain branch, which never pushes,
  ends with two.
\<close>

theorem fallback_history_duplicates_user_message:
  "map content (gc_messages (the (guestChat_call 0 ''hi'' [] initial_page))) = [''hi'']
   \<and> gc_content (the (guestChat_call 0 ''hi'' [] initial_page)) = ''hi''
   \<and> map (\<lambda>m. (role m, content m))
        (messages (fst (handleGuestSent_with (\<lambda>req. Some (sendOnce_backend ''Hi there.'' 1 req))
                          0 ''hi'' [] StreamFails initial_page)))
       = [(''user'', ''hi''), (''user'', ''hi''), (''assistant'', ''Hi there.'')]
   \<and> length (messages (fst (handleGuestSent_with (\<lambda>req. Some (sendOnce_backend ''Hi there.'' 1 req))
                          0 ''hi'' [] StreamFails initial_page)))
       = length (messages initial_page) + 3
   \<and> map (\<lambda>m. (role m, content m))
        (messages (fst (handleGuestSent_with (\<lambda>req. Some (sendOnce_backend ''Hi there.'' 1 req))
                          0 ''hi'' [] StreamFails (initial_page\<lparr>streaming := False\<rparr>))))
       = [(''user'', ''hi''), (''assistant'', ''Hi there.'')]"
  by (simp add: handleGuestSent_with_def guestChat_call_def handleGuestSent_def
      handleGuestSent_begin_def nextCid_def initial_page_def guest_catch_def
      fallback_success_def fallback_request_def guest_request_def slice_drop1_def
      sendOnce_backend_def user_message_def placeholder_message_def fromWire_def toWire_def
      Let_def)

section \<open>The guard of the input components\<close>

lemma jsTrim_Nil: "jsTrim [] = []"
  by (simp add: jsTrim_def)

lemma strip_spaces_all: "list_all is_space cs \<Longrightarrow> strip_spaces f cs = []"
  by (induction cs) simp_all

lemma jsTrim_spaces: "list_all is_space text \<Longrightarrow> jsTrim text = []"
  by (simp add: jsTrim_def strip_spaces_all)

lemma jsTrim_wide_spaces:
  "jsTrim [CHR 0xC2, CHR 0xA0] = []"
  "jsTrim [CHR 0xE3, CHR 0x80, CHR 0x80, CHR '' '', CHR 0xEF, CHR 0xBB, CHR 0xBF] = []"
  "jsTrim ([CHR 0xE2, CHR 0x80, CHR 0xA8] @ ''a b'' @ [CHR 0xC2, CHR 0xA0, LF]) = ''a b''"
  by (simp_all add: jsTrim_def is_space_def is_wide_space_def wide_spaces_def LF_def CR_def)

lemma guard_passes_nonempty: "\<not> guard_rejects inp \<Longrightarrow> inp_content inp \<noteq> []"
  by (auto simp add: guard_rejects_def jsTrim_Nil)

lemma guestInput_guard_noop:
  "guard_rejects inp \<Longrightarrow> guestInput_handleSend nowSec inp p = (inp, p, NotStarted)"
  by (simp add: guestInput_handleSend_def guestInput_begin_def)

lemma messageInput_guard_noop:
  "guard_rejects inp \<Longrightarrow>
   messageInput_handleSend nowSec s chatId resolved inp p = (inp, p, GuardRejected)"
  by (simp add: messageInput_handleSend_def)

lemma guestInput_sending_cleared:
  "\<not> guard_rejects inp \<Longrightarrow>
   guestInput_handleSend nowSec inp p
     = (inp\<lparr>sending := False, inp_content := []\<rparr>,
        fst (handleGuestSent_begin nowSec (inp_content inp) p),
        snd (handleGuestSent_begin nowSec (inp_content inp) p))"
  by (simp add: guestInput_handleSend_def guestInput_begin_def guestInput_resume_def
      split: prod.splits)

lemma guestInput_never_alerts:
  "alerts (fst (guestInput_handleSend nowSec inp p)) = alerts inp"
  by (simp add: guestInput_handleSend_def guestInput_begin_def guestInput_resume_def
      split: prod.splits)

lemma messageInput_sending_kept:
  "\<not> guard_rejects inp \<Longrightarrow> truthy chatId \<Longrightarrow>
   sending (fst (messageInput_handleSend nowSec s chatId resolved inp p))"
  by (simp add: messageInput_handleSend_def Let_def)

lemma messageInput_failure_alerts:
  "alerts (messageInput_failed text message inp) \<noteq> []
   \<and> \<not> sending (messageInput_failed text message inp)
   \<and> inp_content (messageInput_failed text message inp) = text"
  by (simp add: messageInput_failed_def)

section \<open>Failure of the fallback\<close>

lemma handleGuestSent_fallback_fails:
  "text \<noteq> [] \<Longrightarrow> streaming p \<Longrightarrow> \<not> useRag p \<Longrightarrow>
   handleGuestSent nowSec text (map Chunk cs) StreamFails None p
     = ((fst (handleGuestSent_begin nowSec text p))
          \<lparr>messages := messages p @
             [user_message text nowSec (show_nat (cidCounter p + 1)),
              (placeholder_message (show_nat (cidCounter p + 2)))\<lparr>content := concat cs\<rparr>]\<rparr>,
        Rejected)"
proof -
  assume a: "text \<noteq> []" "streaming p" "\<not> useRag p"
  let ?b = "fst (handleGuestSent_begin nowSec text p)"
  let ?pushed = "messages p @ [user_message text nowSec (show_nat (cidCounter p + 1)),
                               placeholder_message (show_nat (cidCounter p + 2))]"
  have b: "handleGuestSent_begin nowSec text p =
             (p\<lparr>cidCounter := cidCounter p + 2, messages := ?pushed,
                pendingAssistantIndex := Some (length (messages p) + 1),
                ignoreFinalGuestSse := False\<rparr>,
              StreamStarted ?pushed
                (guestChatStream_request text
                   (messages p @ [user_message text nowSec (show_nat (cidCounter p + 1))])
                   (guest_opts p)))"
    using a by (simp add: begin_streaming Let_def)
  have e: "guest_events (map Chunk cs) (?b, [])
      = Returned (?b\<lparr>messages := (messages ?b)[length (messages p) + 1 :=
                      (messages ?b ! (length (messages p) + 1))\<lparr>content := [] @ concat cs\<rparr>]\<rparr>,
                  [] @ concat cs)"
    by (rule guest_events_chunks) (simp_all add: b placeholder_message_def nth_append)
  have m: "(messages ?b)[length (messages p) + 1 :=
             (messages ?b ! (length (messages p) + 1))\<lparr>content := [] @ concat cs\<rparr>]
           = messages p @
             [user_message text nowSec (show_nat (cidCounter p + 1)),
              (placeholder_message (show_nat (cidCounter p + 2)))\<lparr>content := concat cs\<rparr>]"
    by (simp add: b nth_append list_update_append)
  have e': "guest_events (map Chunk cs) (?b, [])
      = Returned (?b\<lparr>messages := messages p @
             [user_message text nowSec (show_nat (cidCounter p + 1)),
              (placeholder_message (show_nat (cidCounter p + 2)))\<lparr>content := concat cs\<rparr>]\<rparr>,
                  concat cs)"
    using e m by simp
  obtain q st where bq: "handleGuestSent_begin nowSec text p = (q, st)" by force
  have st: "st = StreamStarted ?pushed
                (guestChatStream_request text
                   (messages p @ [user_message text nowSec (show_nat (cidCounter p + 1))])
                   (guest_opts p))"
    using b bq by simp
  have q: "q = ?b" using bq by simp
  show ?thesis
    unfolding handleGuestSent_def bq
    using e' by (simp add: st q [symmetric] guest_catch_def)
qed

text \<open>
  C6. When the fallback request fails too, the placeholder should be removed, the
  failure shown to the user and the send state cleared. \<open>handleGuestSent\<close> awaits
  \<open>guestChat\<close> in its \<open>catch\<close> with nothing around the call, so when it throws nothing
  more runs. Below, \<open>hi\<close> is sent on the initial page, one chunk arrives, the stream
  fails and \<open>guestChat\<close> throws: the handler's promise rejects, the transcript still ends
  with the marked placeholder holding the chunk, the pending index still points at it,
  and the guest input, whose \<open>try\<close> around \<open>dispatch\<close> is over by then, raises no alert.
  \<open>MessageInput\<close> awaits its request inside the \<open>try\<close> and alerts the failure.
\<close>

theorem fallback_failure_leaves_placeholder:
  "snd (handleGuestSent 0 ''hi'' [Chunk ''He''] StreamFails None initial_page) = Rejected
   \<and> map placeholder
         (messages (fst (handleGuestSent 0 ''hi'' [Chunk ''He''] StreamFails None initial_page)))
       = [False, True]
   \<and> map content
         (messages (fst (handleGuestSent 0 ''hi'' [Chunk ''He''] StreamFails None initial_page)))
       = [''hi'', ''He'']
   \<and> pendingAssistantIndex
         (fst (handleGuestSent 0 ''hi'' [Chunk ''He''] StreamFails None initial_page))
       = Some 1
   \<and> alerts (fst (guestInput_handleSend 0 (initial_input\<lparr>inp_content := ''hi''\<rparr>) initial_page))
       = []
   \<and> alerts (messageInput_failed ''hi'' ''Failed to fetch'' (initial_input\<lparr>sending := True\<rparr>))
       = [''Failed to fetch'']"
  by (simp add: handleGuestSent_def handleGuestSent_begin_def nextCid_def initial_page_def
      guest_onChunk_def guest_catch_def user_message_def placeholder_message_def Let_def
      guestInput_never_alerts initial_input_def messageInput_failed_def)

section \<open>Retrieval-augmented sends\<close>

text \<open>
  C8. With \<open>useRag\<close> set no streaming request is opened, whatever the streaming flag
  says: \<open>handleGuestSent\<close> and \<open>MessageInput\<close>'s \<open>handleSend\<close> both test
  \<open>streaming && !useRag\<close> and take the plain request (\<open>guestChat\<close>, \<open>sendMessage\<close> with
  \<open>use_rag\<close>), and the page's reactive statement turns \<open>streaming\<close> off.
\<close>

theorem rag_never_streams:
  assumes "useRag p"
  shows "\<not> opens_stream (snd (handleGuestSent_begin nowSec text p))
         \<and> \<not> auth_opens_stream
               (snd (snd (messageInput_handleSend nowSec s chatId resolved inp p)))
         \<and> \<not> streaming (react_useRag p)
         \<and> \<not> streaming (set_useRag True q)
         \<and> (text \<noteq> [] \<longrightarrow>
              snd (handleGuestSent_begin nowSec text p)
                = PlainStarted (guest_request text (messages p) p))
         \<and> (\<not> guard_rejects inp
              \<and> (if truthy chatId then ResolvedTo chatId else resolved) = ResolvedTo target
              \<and> truthy target \<longrightarrow>
              snd (snd (messageInput_handleSend nowSec s chatId resolved inp p))
                = AuthPlain
                    \<lparr>sm_chat = the target, sm_content = inp_content inp,
                     sm_use_rag = Some True,
                     sm_rag_top_k =
                       Some (max 1 (of_int \<lfloor>case ragTopK p of None \<Rightarrow> 0 | Some k \<Rightarrow> k\<rfloor>)),
                     sm_rag_temperature =
                       (case ragTemperature p of
                          None \<Rightarrow> None
                        | Some t \<Rightarrow> Some (min 2 (max 0 t)))\<rparr>)"
proof -
  have g: "\<not> opens_stream (snd (handleGuestSent_begin nowSec text p))"
    using assms by (simp add: handleGuestSent_begin_def nextCid_def Let_def)
  have a: "\<not> auth_opens_stream
               (snd (snd (messageInput_handleSend nowSec s chatId resolved inp p)))"
    using assms
    by (simp add: messageInput_handleSend_def Let_def split: chat_resolution.splits)
  have r: "\<not> streaming (react_useRag p)" "\<not> streaming (set_useRag True q)"
    using assms by (simp_all add: react_useRag_def set_useRag_def)
  have gp: "text \<noteq> [] \<longrightarrow>
              snd (handleGuestSent_begin nowSec text p)
                = PlainStarted (guest_request text (messages p) p)"
    using assms by (simp add: handleGuestSent_begin_def nextCid_def Let_def guest_request_def)
  have ap: "\<not> guard_rejects inp
              \<and> (if truthy chatId then ResolvedTo chatId else resolved) = ResolvedTo target
              \<and> truthy target \<longrightarrow>
              snd (snd (messageInput_handleSend nowSec s chatId resolved inp p))
                = AuthPlain
                    \<lparr>sm_chat = the target, sm_content = inp_content inp,
                     sm_use_rag = Some True,
                     sm_rag_top_k =
                       Some (max 1 (of_int \<lfloor>case ragTopK p of None \<Rightarrow> 0 | Some k \<Rightarrow> k\<rfloor>)),
                     sm_rag_temperature =
                       (case ragTemperature p of
                          None \<Rightarrow> None
                        | Some t \<Rightarrow> Some (min 2 (max 0 t)))\<rparr>"
    using assms by (simp add: messageInput_handleSend_def Let_def)
  show ?thesis using g a r gp ap by blast
qed

theorem rag_never_streams_witness:
  "useRag (initial_page\<lparr>useRag := True, ragTemperature := None\<rparr>)
   \<and> streaming (initial_page\<lparr>useRag := True, ragTemperature := None\<rparr>)
   \<and> ''hi'' \<noteq> []
   \<and> \<not> guard_rejects (initial_input\<lparr>inp_content := ''hi''\<rparr>)
   \<and> (if truthy None then ResolvedTo None else ResolvedTo (Some ''c1'')) = ResolvedTo (Some ''c1'')
   \<and> truthy (Some ''c1'')
   \<and> \<not> opens_stream
         (snd (handleGuestSent_begin 0 ''hi'' (initial_page\<lparr>useRag := True, ragTemperature := None\<rparr>)))
   \<and> snd (handleGuestSent_begin 0 ''hi'' (initial_page\<lparr>useRag := True, ragTemperature := None\<rparr>))
       = PlainStarted
           (guest_request ''hi'' (messages (initial_page\<lparr>useRag := True, ragTemperature := None\<rparr>))
              (initial_page\<lparr>useRag := True, ragTemperature := None\<rparr>))
   \<and> snd (snd (messageInput_handleSend 0 initial_stores None (ResolvedTo (Some ''c1''))
                 (initial_input\<lparr>inp_content := ''hi''\<rparr>)
                 (initial_page\<lparr>useRag := True, ragTemperature := None\<rparr>)))
       = AuthPlain
           \<lparr>sm_chat = ''c1'', sm_content = ''hi'', sm_use_rag = Some True,
            sm_rag_top_k = Some 4, sm_rag_temperature = None\<rparr>
   \<and> \<not> streaming (react_useRag (initial_page\<lparr>useRag := True, ragTemperature := None\<rparr>))"
proof -
  let ?p = "initial_page\<lparr>useRag := True, ragTemperature := None\<rparr>"
  let ?i = "initial_input\<lparr>inp_content := ''hi''\<rparr>"
  have h: "useRag ?p" by simp
  have s: "streaming ?p" by (simp add: initial_page_def)
  have n: "''hi'' \<noteq> []" by simp
  have g: "\<not> guard_rejects ?i"
    by (simp add: guard_rejects_def initial_input_def jsTrim_def is_space_def
        is_wide_space_def wide_spaces_def LF_def CR_def)
  have c: "(if truthy None then ResolvedTo None else ResolvedTo (Some ''c1''))
             = ResolvedTo (Some ''c1'')" by simp
  have tr: "truthy (Some ''c1'')" by simp
  have k: "max 1 (of_int \<lfloor>case ragTopK ?p of None \<Rightarrow> 0 | Some k \<Rightarrow> k\<rfloor>) = (4::rat)"
    by (simp add: initial_page_def)
  have tm: "(case ragTemperature ?p of None \<Rightarrow> None | Some t \<Rightarrow> Some (min 2 (max 0 t))) = None"
    by simp
  have ic: "inp_content ?i = ''hi''" by simp
  note t = rag_never_streams [OF h, of 0 "''hi''" initial_stores None "ResolvedTo (Some ''c1'')" ?i
      _ "Some ''c1''"]
  show ?thesis
    using h s n g c tr t [unfolded k tm ic option.sel] by blast
qed

section \<open>A second send while a guest stream is in flight\<close>

text \<open>
  C7. A send attempted while a send is in flight should be a no-op. Both components
  guard \<open>handleSend\<close> with \<open>!content.trim() || sending\<close> (the lemmas
  \<open>guestInput_guard_noop\<close> and \<open>messageInput_guard_noop\<close>: nothing changes and nothing
  is sent when the guard holds), and \<open>MessageInput\<close> keeps \<open>sending\<close> set while it awaits
  its stream (\<open>messageInput_sending_kept\<close>). The guest input does not: its \<open>dispatch\<close>
  returns at the handler's first \<open>await\<close> and the \<open>finally\<close> clears \<open>sending\<close>. Below,
  on the initial page, the text \<open>a\<close> is sent; the stream is open and the placeholder
  pending when \<open>b\<close> is sent. The second send passes the guard, appends a second
  optimistic pair and opens a second stream.
\<close>

theorem guest_second_send_while_streaming:
  "(let r1 = guestInput_handleSend 0 (initial_input\<lparr>inp_content := ''a''\<rparr>) initial_page;
        r2 = guestInput_handleSend 1 ((fst r1)\<lparr>inp_content := ''b''\<rparr>) (fst (snd r1))
    in pendingAssistantIndex (fst (snd r1)) = Some 1
       \<and> placeholder_present (fst (snd r1))
       \<and> sending (fst r1) = False
       \<and> opens_stream (snd (snd r1))
       \<and> opens_stream (snd (snd r2))
       \<and> map content (messages (fst (snd r2))) = [''a'', [], ''b'', []]
       \<and> pendingAssistantIndex (fst (snd r2)) = Some 3)"
  by (simp add: Let_def guestInput_handleSend_def guestInput_begin_def guestInput_resume_def
      guard_rejects_def jsTrim_def is_space_def is_wide_space_def wide_spaces_def LF_def CR_def
      initial_input_def initial_page_def
      handleGuestSent_begin_def nextCid_def user_message_def placeholder_message_def
      placeholder_present_def)

end
